theory Spec2Isabelle
  imports Main
begin

section \<open>US Chess rating tracker: the values of the program\<close>

text \<open>
  The program of \<^verbatim>\<open>rating_tracker.py\<close> works on the document that
  \<^verbatim>\<open>response.json()\<close> decodes: an untyped tree of Python values. The
  embedding keeps that tree. \<open>JNull\<close> is Python's \<^verbatim>\<open>None\<close>, an object
  is the list of its items in insertion order (a decoded object has every key once),
  and a string is the list of its characters, one \<open>char\<close> for each code point.
  Numbers with a fraction (Python floats) are outside the model.
\<close>

datatype json =
    JNull
  | JBool bool
  | JInt int
  | JStr string
  | JArr "json list"
  | JObj "(string \<times> json) list"

text \<open>The exceptions that the operations of the program raise on such values.\<close>

datatype py_error = AttributeError | TypeError | KeyError | IndexError | ValueError

subsection \<open>Python's operations on decoded values\<close>

text \<open>Truth value testing, as \<^verbatim>\<open>not x\<close>, \<^verbatim>\<open>if x\<close> and \<^verbatim>\<open>x or y\<close> do it.\<close>

fun truthy :: "json \<Rightarrow> bool" where
  "truthy JNull = False"
| "truthy (JBool b) = b"
| "truthy (JInt n) = (n \<noteq> 0)"
| "truthy (JStr s) = (s \<noteq> [])"
| "truthy (JArr xs) = (xs \<noteq> [])"
| "truthy (JObj kvs) = (kvs \<noteq> [])"

definition py_or :: "json \<Rightarrow> json \<Rightarrow> json" where
  "py_or a b = (if truthy a then a else b)"

text \<open>\<^verbatim>\<open>x.get(key, default)\<close>: only a dict has the method.\<close>

fun py_get :: "json \<Rightarrow> string \<Rightarrow> json \<Rightarrow> py_error + json" where
  "py_get (JObj kvs) k dflt = Inr (case map_of kvs k of None \<Rightarrow> dflt | Some v \<Rightarrow> v)"
| "py_get _ k dflt = Inl AttributeError"

text \<open>
  Integer arithmetic: \<^verbatim>\<open>bool\<close> is a subclass of \<^verbatim>\<open>int\<close>; no other decoded
  value supports \<^verbatim>\<open>-\<close>.
\<close>

fun as_int :: "json \<Rightarrow> int option" where
  "as_int (JInt n) = Some n"
| "as_int (JBool b) = Some (if b then 1 else 0)"
| "as_int _ = None"

definition py_sub :: "json \<Rightarrow> json \<Rightarrow> py_error + int" where
  "py_sub a b =
     (case (as_int a, as_int b) of
        (Some x, Some y) \<Rightarrow> Inr (x - y)
      | _ \<Rightarrow> Inl TypeError)"

text \<open>
  Sequencing of steps that may raise: the first \<open>Inl\<close> ends the computation, as an
  exception that nothing catches does.
\<close>

definition bind_exc :: "'e + 'a \<Rightarrow> ('a \<Rightarrow> 'e + 'b) \<Rightarrow> 'e + 'b" where
  "bind_exc m f = (case m of Inl e \<Rightarrow> Inl e | Inr v \<Rightarrow> f v)"

text \<open>
  \<^verbatim>\<open>key in x\<close> for a string \<open>key\<close>: a key of a dict, an element of a list, a
  substring of a string; the other values are not iterable.
\<close>

fun starts_with :: "string \<Rightarrow> string \<Rightarrow> bool" where
  "starts_with [] s = True"
| "starts_with (c # cs) [] = False"
| "starts_with (c # cs) (d # ds) = (c = d \<and> starts_with cs ds)"

fun is_substring :: "string \<Rightarrow> string \<Rightarrow> bool" where
  "is_substring k [] = (k = [])"
| "is_substring k (d # ds) = (starts_with k (d # ds) \<or> is_substring k ds)"

fun py_contains :: "string \<Rightarrow> json \<Rightarrow> py_error + bool" where
  "py_contains k (JObj kvs) = Inr (k \<in> set (map fst kvs))"
| "py_contains k (JArr xs) = Inr (JStr k \<in> set xs)"
| "py_contains k (JStr s) = Inr (is_substring k s)"
| "py_contains k _ = Inl TypeError"

text \<open>\<^verbatim>\<open>x[key]\<close> for a string \<open>key\<close>: only a dict is indexed by strings.\<close>

fun py_getitem :: "json \<Rightarrow> string \<Rightarrow> py_error + json" where
  "py_getitem (JObj kvs) k = (case map_of kvs k of None \<Rightarrow> Inl KeyError | Some v \<Rightarrow> Inr v)"
| "py_getitem _ k = Inl TypeError"

text \<open>
  \<^verbatim>\<open>x[0]\<close>: the first element of a list, the first character of a string; a
  decoded dict has string keys only, so the key \<open>0\<close> is missing.
\<close>

fun py_getitem0 :: "json \<Rightarrow> py_error + json" where
  "py_getitem0 (JArr xs) = (case xs of [] \<Rightarrow> Inl IndexError | x # _ \<Rightarrow> Inr x)"
| "py_getitem0 (JStr s) = (case s of [] \<Rightarrow> Inl IndexError | c # _ \<Rightarrow> Inr (JStr [c]))"
| "py_getitem0 (JObj kvs) = Inl KeyError"
| "py_getitem0 _ = Inl TypeError"

text \<open>\<^verbatim>\<open>len(x)\<close>.\<close>

fun py_len :: "json \<Rightarrow> py_error + nat" where
  "py_len (JArr xs) = Inr (length xs)"
| "py_len (JStr s) = Inr (length s)"
| "py_len (JObj kvs) = Inr (length kvs)"
| "py_len _ = Inl TypeError"

text \<open>
  The values that \<^verbatim>\<open>for v in x\<close> runs through: the elements of a list, the keys
  of a dict, the characters of a string.
\<close>

fun py_iter :: "json \<Rightarrow> py_error + json list" where
  "py_iter (JArr xs) = Inr xs"
| "py_iter (JObj kvs) = Inr (map (\<lambda>kv. JStr (fst kv)) kvs)"
| "py_iter (JStr s) = Inr (map (\<lambda>c. JStr [c]) s)"
| "py_iter _ = Inl TypeError"

text \<open>
  \<^verbatim>\<open>x[:n]\<close>: strings and lists are sliced. A dict raises (TypeError up to
  Python 3.11, KeyError from 3.12 on; the model has the former), the other values are
  not subscriptable.
\<close>

fun py_slice :: "json \<Rightarrow> nat \<Rightarrow> py_error + json" where
  "py_slice (JStr s) n = Inr (JStr (take n s))"
| "py_slice (JArr xs) n = Inr (JArr (take n xs))"
| "py_slice _ n = Inl TypeError"

text \<open>\<^verbatim>\<open>s.replace(old, new)\<close> for a pattern \<open>old\<close> of one character.\<close>

definition py_replace :: "char \<Rightarrow> string \<Rightarrow> string \<Rightarrow> string" where
  "py_replace old new s = concat (map (\<lambda>c. if c = old then new else [c]) s)"

subsection \<open>Decimal rendering of integers\<close>

definition digit_char :: "nat \<Rightarrow> char" where
  "digit_char d = ''0123456789'' ! d"

fun str_nat :: "nat \<Rightarrow> string" where
  "str_nat n = (if n < 10 then [digit_char n] else str_nat (n div 10) @ [digit_char (n mod 10)])"

declare str_nat.simps [simp del]

text \<open>\<^verbatim>\<open>str(i)\<close> and \<^verbatim>\<open>f"{i}"\<close> for an integer.\<close>

definition str_int :: "int \<Rightarrow> string" where
  "str_int i = (if i < 0 then CHR ''-'' # str_nat (nat (- i)) else str_nat (nat i))"

section \<open>The rating change\<close>

text \<open>
  \<^verbatim>\<open>calculate_rating_change(rating_before, rating_after)\<close>, lines 42 to 53: the
  test for \<^verbatim>\<open>None\<close> first, then \<^verbatim>\<open>rating_after - rating_before\<close> and its
  three renderings.
\<close>

definition calculate_rating_change :: "json \<Rightarrow> json \<Rightarrow> py_error + string" where
  "calculate_rating_change rating_before rating_after =
     (if rating_after = JNull \<or> rating_before = JNull then Inr ''Pending''
      else case py_sub rating_after rating_before of
             Inl e \<Rightarrow> Inl e
           | Inr change \<Rightarrow>
               if change > 0 then Inr (CHR ''+'' # str_int change)
               else if change < 0 then Inr (str_int change)
               else Inr ''0'')"

text \<open>An optional integer rating as the decoded document holds it.\<close>

fun rating :: "int option \<Rightarrow> json" where
  "rating None = JNull"
| "rating (Some n) = JInt n"

text \<open>
  The specification's wording of the rendering, used for comparison only: the decimal
  representation of a difference, with \<open>+\<close> in front of a positive one.
\<close>

definition sign_prefixed :: "int \<Rightarrow> string" where
  "sign_prefixed d = (if d > 0 then CHR ''+'' # str_int d else str_int d)"

section \<open>Dates\<close>

subsection \<open>The library's parser and formatter\<close>

text \<open>
  \<^verbatim>\<open>datetime.fromisoformat\<close> and \<^verbatim>\<open>strftime\<close> belong to Python's standard
  library, not to this program. They are modelled after the library's documentation:
  the parser reads \<^verbatim>\<open>YYYY-MM-DD[*HH[:MM[:SS[.fff[fff]]]][+HH:MM[:SS[.ffffff]]]]\<close>
  (the format of Python 3.7 to 3.10, which later versions extend), \<open>*\<close> being any one
  character, and raises ValueError on anything else or on a field out of range;
  \<^verbatim>\<open>%Y-%m-%d\<close> writes the year with four digits and month and day with two.
\<close>

record datetime =
  year :: nat
  month :: nat
  day :: nat
  hour :: nat
  minute :: nat
  second :: nat
  microsecond :: nat
  utcoffset :: "int option"

definition digit_val :: "char \<Rightarrow> nat option" where
  "digit_val c = map_of
     [(CHR ''0'', 0), (CHR ''1'', 1), (CHR ''2'', 2), (CHR ''3'', 3), (CHR ''4'', 4),
      (CHR ''5'', 5), (CHR ''6'', 6), (CHR ''7'', 7), (CHR ''8'', 8), (CHR ''9'', 9)] c"

fun parse_digits_from :: "nat \<Rightarrow> string \<Rightarrow> nat option" where
  "parse_digits_from acc [] = Some acc"
| "parse_digits_from acc (c # cs) =
     (case digit_val c of None \<Rightarrow> None | Some d \<Rightarrow> parse_digits_from (10 * acc + d) cs)"

definition parse_digits :: "string \<Rightarrow> nat option" where
  "parse_digits s = (if s = [] then None else parse_digits_from 0 s)"

text \<open>A field of two digits and what follows it.\<close>

fun two_digits :: "string \<Rightarrow> (nat \<times> string) option" where
  "two_digits (a # b # rest) =
     (case (digit_val a, digit_val b) of
        (Some x, Some y) \<Rightarrow> Some (10 * x + y, rest)
      | _ \<Rightarrow> None)"
| "two_digits _ = None"

text \<open>The fraction of a second: nothing, or a point and three or six digits.\<close>

fun parse_fraction :: "string \<Rightarrow> nat option" where
  "parse_fraction [] = Some 0"
| "parse_fraction (c # ds) =
     (if c = CHR ''.'' \<and> (length ds = 3 \<or> length ds = 6)
      then map_option (\<lambda>v. if length ds = 3 then v * 1000 else v) (parse_digits ds)
      else None)"

text \<open>A colon and a field of two digits.\<close>

fun colon_two_digits :: "string \<Rightarrow> (nat \<times> string) option" where
  "colon_two_digits [] = None"
| "colon_two_digits (c # rest) = (if c = CHR '':'' then two_digits rest else None)"

text \<open>\<^verbatim>\<open>HH[:MM[:SS[.fff[fff]]]]\<close>\<close>

definition parse_hh_mm_ss_ff :: "string \<Rightarrow> (nat \<times> nat \<times> nat \<times> nat) option" where
  "parse_hh_mm_ss_ff t =
     (case two_digits t of
        None \<Rightarrow> None
      | Some (h, r1) \<Rightarrow>
          (if r1 = [] then Some (h, 0, 0, 0)
           else (case colon_two_digits r1 of
                   None \<Rightarrow> None
                 | Some (m, r2) \<Rightarrow>
                     (if r2 = [] then Some (h, m, 0, 0)
                      else (case colon_two_digits r2 of
                              None \<Rightarrow> None
                            | Some (s, r3) \<Rightarrow>
                                map_option (\<lambda>us. (h, m, s, us)) (parse_fraction r3))))))"

text \<open>
  The offset from UTC in microseconds: the field has 5, 8 or 15 characters and lies
  strictly within a day.
\<close>

definition parse_utcoffset :: "char \<Rightarrow> string \<Rightarrow> int option" where
  "parse_utcoffset sign tz =
     (if length tz \<notin> {5, 8, 15} then None
      else case parse_hh_mm_ss_ff tz of
        None \<Rightarrow> None
      | Some (h, m, s, us) \<Rightarrow>
          let off = int (((h * 60 + m) * 60 + s) * 1000000 + us)
          in if off < 86400000000
             then Some (if sign = CHR ''-'' then - off else off)
             else None)"

text \<open>The time of day, and the offset after the first \<open>+\<close> or \<open>-\<close>.\<close>

definition parse_isoformat_time ::
  "string \<Rightarrow> ((nat \<times> nat \<times> nat \<times> nat) \<times> int option) option" where
  "parse_isoformat_time t =
     (let timestr = takeWhile (\<lambda>c. c \<noteq> CHR ''+'' \<and> c \<noteq> CHR ''-'') t;
          rest = dropWhile (\<lambda>c. c \<noteq> CHR ''+'' \<and> c \<noteq> CHR ''-'') t
      in case parse_hh_mm_ss_ff timestr of
        None \<Rightarrow> None
      | Some comps \<Rightarrow>
          (case rest of
             [] \<Rightarrow> Some (comps, None)
           | sign # tz \<Rightarrow> map_option (\<lambda>off. (comps, Some off)) (parse_utcoffset sign tz)))"

text \<open>\<^verbatim>\<open>YYYY-MM-DD\<close>, ten characters.\<close>

definition parse_isoformat_date :: "string \<Rightarrow> (nat \<times> nat \<times> nat) option" where
  "parse_isoformat_date d =
     (if length d = 10 \<and> d ! 4 = CHR ''-'' \<and> d ! 7 = CHR ''-''
      then case (parse_digits (take 4 d), parse_digits (take 2 (drop 5 d)),
                 parse_digits (drop 8 d)) of
             (Some y, Some m, Some dd) \<Rightarrow> Some (y, m, dd)
           | _ \<Rightarrow> None
      else None)"

definition is_leap :: "nat \<Rightarrow> bool" where
  "is_leap y = (y mod 4 = 0 \<and> (y mod 100 \<noteq> 0 \<or> y mod 400 = 0))"

definition days_in_month :: "nat \<Rightarrow> nat \<Rightarrow> nat" where
  "days_in_month y m =
     (if m = 2 then (if is_leap y then 29 else 28)
      else if m \<in> {4, 6, 9, 11} then 30 else 31)"

text \<open>The range checks of the \<^verbatim>\<open>datetime\<close> constructor.\<close>

definition valid_datetime :: "datetime \<Rightarrow> bool" where
  "valid_datetime d =
     (1 \<le> year d \<and> year d \<le> 9999 \<and> 1 \<le> month d \<and> month d \<le> 12
      \<and> 1 \<le> day d \<and> day d \<le> days_in_month (year d) (month d)
      \<and> hour d < 24 \<and> minute d < 60 \<and> second d < 60 \<and> microsecond d < 1000000)"

definition fromisoformat :: "string \<Rightarrow> py_error + datetime" where
  "fromisoformat date_string =
     (case parse_isoformat_date (take 10 date_string) of
        None \<Rightarrow> Inl ValueError
      | Some (y, m, dd) \<Rightarrow>
          (case (if length date_string > 10
                 then parse_isoformat_time (drop 11 date_string)
                 else Some ((0, 0, 0, 0), None)) of
             None \<Rightarrow> Inl ValueError
           | Some ((h, mi, s, us), tz) \<Rightarrow>
               let d = \<lparr>year = y, month = m, day = dd, hour = h, minute = mi, second = s,
                        microsecond = us, utcoffset = tz\<rparr>
               in if valid_datetime d then Inr d else Inl ValueError))"

definition zero_pad :: "nat \<Rightarrow> nat \<Rightarrow> string" where
  "zero_pad w n = replicate (w - length (str_nat n)) CHR ''0'' @ str_nat n"

text \<open>\<^verbatim>\<open>date.strftime("%Y-%m-%d")\<close>\<close>

definition strftime_Ymd :: "datetime \<Rightarrow> string" where
  "strftime_Ymd d = zero_pad 4 (year d) @ ''-'' @ zero_pad 2 (month d) @ ''-'' @ zero_pad 2 (day d)"

subsection \<open>format\_date\<close>

text \<open>
  Lines 31 to 39. The body of the \<^verbatim>\<open>try\<close> comes first: \<^verbatim>\<open>replace\<close> is a
  method of strings only, then the parser and the formatter.
\<close>

definition format_date_try :: "json \<Rightarrow> py_error + string" where
  "format_date_try date_string =
     (case date_string of
        JStr s \<Rightarrow>
          bind_exc (fromisoformat (py_replace CHR ''Z'' ''+00:00'' s))
            (\<lambda>date. Inr (strftime_Ymd date))
      | _ \<Rightarrow> Inl AttributeError)"

text \<open>
  The function itself: the guard for a false value, and the bare \<^verbatim>\<open>except\<close> that
  turns every exception of the body into the return of the argument.
\<close>

definition format_date :: "json \<Rightarrow> py_error + json" where
  "format_date date_string =
     (if \<not> truthy date_string then Inr (JStr ''N/A'')
      else case format_date_try date_string of
             Inr formatted \<Rightarrow> Inr (JStr formatted)
           | Inl e \<Rightarrow> Inr date_string)"

section \<open>The display\<close>

text \<open>
  What the program writes to standard output, one value for each \<^verbatim>\<open>print\<close>. A
  line that formats a value keeps the value instead of its text: \<^verbatim>\<open>str\<close> of an
  arbitrary decoded value and the grid that \<^verbatim>\<open>tabulate\<close> draws are the
  libraries' business.
\<close>

datatype exc = HTTPError nat | RequestFailure string | ForeignException string

datatype printed =
    Print string
  | PrintCurrentRating json
  | PrintTotalSections nat
  | PrintTable "string list" "json list list"
  | PrintFetchError exc

subsection \<open>One row of the table\<close>

text \<open>
  Lines 104 to 111: \<^verbatim>\<open>rating_before\<close> and \<^verbatim>\<open>rating_after\<close> start as
  \<^verbatim>\<open>None\<close> and are read from the first rating record when the list is true.
\<close>

definition first_ratings :: "json \<Rightarrow> py_error + json \<times> json" where
  "first_ratings rating_records =
     (if truthy rating_records then
        bind_exc (py_getitem0 rating_records) (\<lambda>r0.
        bind_exc (py_get r0 ''preRating'' JNull) (\<lambda>rating_before.
        bind_exc (py_getitem0 rating_records) (\<lambda>r0'.
        bind_exc (py_get r0' ''postRating'' JNull) (\<lambda>rating_after.
        Inr (rating_before, rating_after)))))
      else Inr (JNull, JNull))"

text \<open>Lines 102 to 128, the body of the loop up to the finished row.\<close>

definition section_row :: "json \<Rightarrow> py_error + json list" where
  "section_row section =
     bind_exc (py_get section ''ratingRecords'' (JArr [])) (\<lambda>rating_records.
     bind_exc (py_get section ''ratingSystem'' (JStr ''R'')) (\<lambda>rating_type.
     bind_exc (first_ratings rating_records) (\<lambda>(rating_before, rating_after).
     bind_exc (calculate_rating_change rating_before rating_after) (\<lambda>change.
     bind_exc (py_get section ''event'' (JObj [])) (\<lambda>event.
     bind_exc (py_get event ''name'' (JStr ''N/A'')) (\<lambda>event_name.
     bind_exc (py_get event ''endDate'' JNull) (\<lambda>end_date.
     bind_exc (if truthy end_date then Inr end_date
               else py_get event ''startDate'' (JStr [])) (\<lambda>event_date.
     bind_exc (format_date event_date) (\<lambda>date_cell.
     bind_exc (py_slice event_name 30) (\<lambda>name_cell.
     bind_exc (py_get section ''sectionName'' (JStr ''N/A'')) (\<lambda>section_name.
     bind_exc (py_slice section_name 20) (\<lambda>section_cell.
     Inr [date_cell, name_cell, section_cell, rating_type,
          if rating_before \<noteq> JNull then rating_before else JStr ''N/A'',
          if rating_after \<noteq> JNull then rating_after else JStr ''Pending'',
          JStr change]))))))))))))"

text \<open>The loop: the rows in the order of the sections, up to the first exception.\<close>

fun table_rows :: "json list \<Rightarrow> py_error + json list list" where
  "table_rows [] = Inr []"
| "table_rows (section # rest) =
     bind_exc (section_row section) (\<lambda>row.
     bind_exc (table_rows rest) (\<lambda>rows. Inr (row # rows)))"

subsection \<open>The summary\<close>

text \<open>
  Lines 75 to 80: the chain of \<^verbatim>\<open>or\<close> takes the first true value, so the
  second \<^verbatim>\<open>get\<close> runs only when the first gave a false one.
\<close>

definition current_rating_of :: "json \<Rightarrow> py_error + json" where
  "current_rating_of sections =
     bind_exc (py_getitem0 sections) (\<lambda>latest.
     bind_exc (py_get latest ''ratingRecords'' (JArr [])) (\<lambda>rating_records.
     if truthy rating_records then
       bind_exc (py_getitem0 rating_records) (\<lambda>r0.
       bind_exc (py_get r0 ''postRating'' JNull) (\<lambda>post.
       if truthy post then Inr post
       else bind_exc (py_getitem0 rating_records) (\<lambda>r0'.
            bind_exc (py_get r0' ''preRating'' JNull) (\<lambda>pre.
            Inr (py_or pre (JStr ''N/A''))))))
     else Inr (JStr ''N/A'')))"

subsection \<open>display\_sections\<close>

definition banner :: "printed list" where
  "banner = [Print (CHR 0x0A # replicate 80 CHR ''=''),
             Print ''US CHESS RATING TRACKER'',
             Print (replicate 80 CHR ''='')]"

definition headers :: "string list" where
  "headers = [''Date'', ''Tournament'', ''Section'', ''Type'', ''Before'', ''After'', ''Change'']"

definition table_banner :: "printed list" where
  "table_banner = [Print (CHR 0x0A # replicate 80 CHR ''=''),
                   Print ''TOURNAMENT SECTIONS (Most Recent First)'',
                   Print (replicate 80 CHR ''='' @ [CHR 0x0A])]"

text \<open>
  Lines 56 to 136. The result is what was printed and, when an exception left the
  function, that exception. The test \<^verbatim>\<open>if sections\<close> of line 73 stands after
  the return of line 66 and is always true there.
\<close>

definition display_sections :: "json \<Rightarrow> printed list \<times> py_error option" where
  "display_sections data =
     (if \<not> truthy data then ([Print ''No data available''], None)
      else case py_contains ''items'' data of
        Inl e \<Rightarrow> ([], Some e)
      | Inr False \<Rightarrow> ([Print ''No data available''], None)
      | Inr True \<Rightarrow>
          (case py_getitem data ''items'' of
             Inl e \<Rightarrow> ([], Some e)
           | Inr sections \<Rightarrow>
               (if \<not> truthy sections then ([Print ''No tournament sections found''], None)
                else (case bind_exc (current_rating_of sections) (\<lambda>current_rating.
                           bind_exc (py_len sections) (\<lambda>total_sections.
                           Inr (current_rating, total_sections))) of
                  Inl e \<Rightarrow> (banner, Some e)
                | Inr (current_rating, total_sections) \<Rightarrow>
                    (let summary = [PrintCurrentRating current_rating,
                                    PrintTotalSections total_sections]
                     in (case bind_exc (py_iter sections) table_rows of
                           Inl e \<Rightarrow> (banner @ summary, Some e)
                         | Inr table_data \<Rightarrow>
                             (banner @ summary @ table_banner
                                @ [PrintTable headers table_data, Print []], None)))))))"

section \<open>The fetch\<close>

text \<open>
  Lines 14 to 28. The network is a parameter: \<open>requests_get url params\<close> is what
  \<^verbatim>\<open>requests.get\<close> does for this call, an exception or a response. A response
  carries its status code and what its \<^verbatim>\<open>json()\<close> method does, the decoded body
  or an exception. The exceptions are those of \<^verbatim>\<open>requests\<close>: \<open>HTTPError\<close> of
  \<^verbatim>\<open>raise_for_status\<close>, any other member of the \<^verbatim>\<open>RequestException\<close>
  hierarchy with its message, and an exception from outside that hierarchy.
\<close>

record response =
  status_code :: nat
  json_body :: "exc + json"

fun is_RequestException :: "exc \<Rightarrow> bool" where
  "is_RequestException (HTTPError status) = True"
| "is_RequestException (RequestFailure msg) = True"
| "is_RequestException (ForeignException msg) = False"

text \<open>
  \<^verbatim>\<open>Response.raise_for_status\<close>, as the library documents it: a client error
  (4xx) or a server error (5xx) raises, every other status passes.
\<close>

definition raise_for_status :: "response \<Rightarrow> exc + unit" where
  "raise_for_status r =
     (if 400 \<le> status_code r \<and> status_code r < 600 then Inl (HTTPError (status_code r))
      else Inr ())"

definition sections_url :: "string \<Rightarrow> string" where
  "sections_url member_id =
     ''https://ratings-api.uschess.org/api/v1/members/'' @ member_id @ ''/sections''"

text \<open>
  The \<^verbatim>\<open>except\<close> clause: a \<^verbatim>\<open>RequestException\<close> is printed and answered
  with \<^verbatim>\<open>None\<close>, any other exception leaves the function.
\<close>

definition fetch_handler :: "exc \<Rightarrow> printed list \<times> (exc + json)" where
  "fetch_handler e =
     (if is_RequestException e then ([PrintFetchError e], Inr JNull) else ([], Inl e))"

definition fetch_member_sections ::
  "(string \<Rightarrow> (string \<times> int) list \<Rightarrow> exc + response) \<Rightarrow> string \<Rightarrow> int \<Rightarrow> int
     \<Rightarrow> printed list \<times> (exc + json)" where
  "fetch_member_sections requests_get member_id offset size' =
     (case requests_get (sections_url member_id) [(''Offset'', offset), (''Size'', size')] of
        Inl e \<Rightarrow> fetch_handler e
      | Inr resp \<Rightarrow>
          (case raise_for_status resp of
             Inl e \<Rightarrow> fetch_handler e
           | Inr u \<Rightarrow>
               (case json_body resp of
                  Inl e \<Rightarrow> fetch_handler e
                | Inr document \<Rightarrow> ([], Inr document))))"

section \<open>Reading the output\<close>

text \<open>
  What a run printed of each kind, in the order of printing: the current ratings, the
  section counts and the tables (each table as its list of rows). These functions
  belong to the statements below, not to the program.
\<close>

fun current_ratings :: "printed list \<Rightarrow> json list" where
  "current_ratings [] = []"
| "current_ratings (PrintCurrentRating v # out) = v # current_ratings out"
| "current_ratings (p # out) = current_ratings out"

fun total_sections :: "printed list \<Rightarrow> nat list" where
  "total_sections [] = []"
| "total_sections (PrintTotalSections n # out) = n # total_sections out"
| "total_sections (p # out) = total_sections out"

fun tables :: "printed list \<Rightarrow> json list list list" where
  "tables [] = []"
| "tables (PrintTable hs rows # out) = rows # tables out"
| "tables (p # out) = tables out"

text \<open>The document of the specification's example.\<close>

definition spring_open_document :: json where
  "spring_open_document =
     JObj [(''items'', JArr [JObj
       [(''ratingRecords'', JArr [JObj [(''preRating'', JInt 1500), (''postRating'', JInt 1520)]]),
        (''ratingSystem'', JStr ''R''),
        (''sectionName'', JStr ''Open''),
        (''event'', JObj [(''name'', JStr ''Spring Open''),
                         (''endDate'', JStr ''2024-03-10T00:00:00Z'')])]])]"

text \<open>
  A document of two sections for the statements on rows: the first with long names and
  neither rating system nor rating records, the second with a first rating record that
  has no ratings, followed by the records given.
\<close>

definition open_section :: "(string \<times> json) list" where
  "open_section =
     [(''sectionName'', JStr ''Under 1800 Reserve Section''),
      (''event'', JObj [(''name'', JStr ''2024 National Open Championship Las Vegas'')])]"

definition quick_section :: "json list \<Rightarrow> (string \<times> json) list" where
  "quick_section later =
     [(''ratingRecords'', JArr (JObj [] # later)),
      (''ratingSystem'', JStr ''Q'')]"

definition two_sections_document :: "json list \<Rightarrow> (string \<times> json) list" where
  "two_sections_document later =
     [(''items'', JArr [JObj open_section, JObj (quick_section later)])]"

section \<open>Sequencing\<close>

lemma bind_exc_simps [simp]:
  "bind_exc (Inl e) f = Inl e"
  "bind_exc (Inr v) f = f v"
  by (simp_all add: bind_exc_def)

lemma bind_exc_eq_Inr: "(bind_exc m f = Inr r) = (\<exists>v. m = Inr v \<and> f v = Inr r)"
  by (cases m) simp_all

section \<open>Properties of the rating change\<close>

lemma digit_char_cases: "d < 10 \<Longrightarrow> digit_char d \<in> set ''0123456789''"
  unfolding digit_char_def by (rule nth_mem) simp

lemma str_nat_nonempty: "str_nat n \<noteq> []"
  by (subst str_nat.simps) simp

lemma str_nat_0: "str_nat 0 = ''0''"
  by (subst str_nat.simps) (simp add: digit_char_def)

lemma hd_str_nat_digit: "hd (str_nat n) \<in> set ''0123456789''"
proof (induction n rule: str_nat.induct)
  case (1 n)
  show ?case
  proof (cases "n < 10")
    case True
    then show ?thesis using digit_char_cases[of n] by (subst str_nat.simps) simp
  next
    case False
    with 1 have "hd (str_nat (n div 10)) \<in> set ''0123456789''" by simp
    with False show ?thesis
      by (subst str_nat.simps) (simp add: str_nat_nonempty)
  qed
qed

lemma str_nat_not_Pending: "str_nat n \<noteq> ''Pending''"
  using hd_str_nat_digit[of n] by auto

lemma str_int_not_Pending: "str_int i \<noteq> ''Pending''"
  by (simp add: str_int_def str_nat_not_Pending)

lemma rating_eq_JNull: "(rating r = JNull) = (r = None)"
  by (cases r) simp_all

text \<open>
  C1, as the code has it. The result is \<open>Pending\<close> exactly when a rating is absent;
  with both present it is the sign-prefixed decimal representation of
  \<open>after - before\<close> (the specification's sentence has the operands the other way
  round); equal ratings give the literal \<open>0\<close>.
\<close>

theorem calculate_rating_change_delta:
  "(calculate_rating_change (rating before) (rating after) = Inr ''Pending'')
     = (before = None \<or> after = None)
   \<and> calculate_rating_change (rating (Some b)) (rating (Some a)) = Inr (sign_prefixed (a - b))
   \<and> calculate_rating_change (rating (Some x)) (rating (Some x)) = Inr ''0''"
proof (intro conjI)
  show "(calculate_rating_change (rating before) (rating after) = Inr ''Pending'')
          = (before = None \<or> after = None)"
  proof (cases "before = None \<or> after = None")
    case True
    then show ?thesis
      by (auto simp: calculate_rating_change_def)
  next
    case False
    then obtain p q where "before = Some p" "after = Some q" by auto
    then show ?thesis
      by (simp add: calculate_rating_change_def py_sub_def str_int_not_Pending)
  qed
  show "calculate_rating_change (rating (Some b)) (rating (Some a)) = Inr (sign_prefixed (a - b))"
    by (simp add: calculate_rating_change_def py_sub_def sign_prefixed_def str_int_def str_nat_0)
  show "calculate_rating_change (rating (Some x)) (rating (Some x)) = Inr ''0''"
    by (simp add: calculate_rating_change_def py_sub_def)
qed

theorem calculate_rating_change_delta_witness:
  "(calculate_rating_change (rating (Some 1500)) (rating None) = Inr ''Pending'')
     = (Some (1500::int) = None \<or> (None::int option) = None)
   \<and> calculate_rating_change (rating (Some 1500)) (rating (Some 1520)) = Inr ''+20''
   \<and> calculate_rating_change (rating (Some 1480)) (rating (Some 1480)) = Inr ''0''"
  using calculate_rating_change_delta [of "Some 1500" None 1500 1520 1480]
  by (simp add: sign_prefixed_def str_int_def str_nat.simps digit_char_def)

text \<open>
  C1 as the specification words it, with \<open>before - after\<close>, fails on a gain of 20
  points: the code renders \<open>+20\<close>, the sentence asks for \<open>-20\<close>.
\<close>

theorem calculate_rating_change_before_minus_after_counterexample:
  "calculate_rating_change (rating (Some 1500)) (rating (Some 1520))
     \<noteq> Inr (sign_prefixed (1500 - 1520))"
  by (simp add: calculate_rating_change_def py_sub_def sign_prefixed_def str_int_def
      str_nat.simps digit_char_def)

section \<open>Properties of format\_date\<close>

subsection \<open>Parsing a field and writing it again\<close>









subsection \<open>The parsed date is the first ten characters\<close>











subsection \<open>Evaluation on concrete strings\<close>

lemmas date_eval = fromisoformat_def parse_isoformat_date_def parse_isoformat_time_def
  parse_hh_mm_ss_ff_def parse_utcoffset_def parse_digits_def digit_val_def
  valid_datetime_def days_in_month_def is_leap_def py_replace_def

lemma fromisoformat_example:
  "fromisoformat (py_replace CHR ''Z'' ''+00:00'' ''2024-03-10T00:00:00Z'')
     = Inr \<lparr>year = 2024, month = 3, day = 10, hour = 0, minute = 0, second = 0,
             microsecond = 0, utcoffset = Some 0\<rparr>"
  by (simp add: date_eval)


lemma strftime_example: "strftime_Ymd \<lparr>year = 2024, month = 3, day = 10, hour = 0, minute = 0, second = 0,
             microsecond = 0, utcoffset = Some 0\<rparr> = ''2024-03-10''"
  by (simp add: strftime_Ymd_def zero_pad_def str_nat.simps digit_char_def)



text \<open>
  C10. \<open>format_date\<close> never raises: on a string it returns a string, on any decoded
  value it returns a value, and on the empty string it returns \<open>N/A\<close>, not the
  input.
\<close>

theorem format_date_total:
  "(\<exists>r. format_date (JStr s) = Inr (JStr r))
   \<and> (\<exists>r. format_date v = Inr r)
   \<and> format_date (JStr []) = Inr (JStr ''N/A'')"
  by (simp add: format_date_def split: sum.split)

section \<open>Properties of display\_sections\<close>

subsection \<open>The output and its parts\<close>

lemma current_ratings_append:
  "current_ratings (a @ b) = current_ratings a @ current_ratings b"
  by (induction a rule: current_ratings.induct) simp_all

lemma total_sections_append:
  "total_sections (a @ b) = total_sections a @ total_sections b"
  by (induction a rule: total_sections.induct) simp_all

lemma tables_append: "tables (a @ b) = tables a @ tables b"
  by (induction a rule: tables.induct) simp_all

lemma banner_parts [simp]:
  "current_ratings banner = []" "total_sections banner = []" "tables banner = []"
  "current_ratings table_banner = []" "total_sections table_banner = []"
  "tables table_banner = []"
  by (simp_all add: banner_def table_banner_def)

lemma map_of_Some_key: "map_of kvs k = Some v \<Longrightarrow> k \<in> set (map fst kvs) \<and> kvs \<noteq> []"
  by (auto dest: map_of_SomeD intro: rev_image_eqI)

text \<open>
  The run on a document whose \<open>items\<close> is a list with at least one element: what is
  printed hangs on the summary and on the rows.
\<close>

lemma display_sections_items:
  assumes "map_of doc ''items'' = Some (JArr (s # rest))"
  shows "display_sections (JObj doc) =
     (case current_rating_of (JArr (s # rest)) of
        Inl e \<Rightarrow> (banner, Some e)
      | Inr current_rating \<Rightarrow>
          (case table_rows (s # rest) of
             Inl e \<Rightarrow> (banner @ [PrintCurrentRating current_rating,
                                  PrintTotalSections (Suc (length rest))], Some e)
           | Inr table_data \<Rightarrow>
               (banner @ [PrintCurrentRating current_rating,
                          PrintTotalSections (Suc (length rest))] @ table_banner
                  @ [PrintTable headers table_data, Print []], None)))"
proof -
  from map_of_Some_key[OF assms] have "''items'' \<in> set (map fst doc)" "doc \<noteq> []"
    by simp_all
  with assms show ?thesis
    by (simp add: display_sections_def Let_def split: sum.split)
qed

lemma display_sections_tables:
  assumes "map_of doc ''items'' = Some (JArr (s # rest))"
    and "tables (fst (display_sections (JObj doc))) = [rows]"
  shows "table_rows (s # rest) = Inr rows"
  using assms(2) unfolding display_sections_items[OF assms(1)]
  by (simp add: tables_append split: sum.splits)

lemma table_rows_nth:
  "table_rows secs = Inr rows \<Longrightarrow>
     length rows = length secs \<and> (\<forall>i < length secs. section_row (secs ! i) = Inr (rows ! i))"
proof (induction secs arbitrary: rows)
  case Nil
  then show ?case by simp
next
  case (Cons s secs)
  from Cons.prems obtain row rows' where
    row: "section_row s = Inr row" and rest: "table_rows secs = Inr rows'"
    and rows: "rows = row # rows'"
    by (auto simp: bind_exc_eq_Inr)
  from Cons.IH[OF rest] row rows show ?case
    by (auto simp: nth_Cons split: nat.split)
qed

lemma displayed_row:
  assumes "map_of doc ''items'' = Some (JArr secs)"
    and "tables (fst (display_sections (JObj doc))) = [rows]"
    and "i < length secs"
  shows "section_row (secs ! i) = Inr (rows ! i)"
proof -
  from assms(3) obtain s rest where secs: "secs = s # rest" by (cases secs) auto
  from assms(1) have "map_of doc ''items'' = Some (JArr (s # rest))"
    unfolding secs .
  then have "table_rows secs = Inr rows"
    unfolding secs using assms(2) by (rule display_sections_tables)
  with assms(3) show ?thesis by (simp add: table_rows_nth)
qed

subsection \<open>The example\<close>

lemma format_date_example:
  "format_date (JStr ''2024-03-10T00:00:00Z'') = Inr (JStr ''2024-03-10'')"
  by (simp add: format_date_def format_date_try_def fromisoformat_example strftime_example)

lemma section_row_example:
  "section_row (JObj
       [(''ratingRecords'', JArr [JObj [(''preRating'', JInt 1500), (''postRating'', JInt 1520)]]),
        (''ratingSystem'', JStr ''R''),
        (''sectionName'', JStr ''Open''),
        (''event'', JObj [(''name'', JStr ''Spring Open''),
                         (''endDate'', JStr ''2024-03-10T00:00:00Z'')])])
   = Inr [JStr ''2024-03-10'', JStr ''Spring Open'', JStr ''Open'', JStr ''R'',
          JInt 1500, JInt 1520, JStr ''+20'']"
  by (simp add: section_row_def first_ratings_def calculate_rating_change_def py_sub_def
      format_date_example str_int_def str_nat.simps digit_char_def)

lemma tables_spring_open_document:
  "tables (fst (display_sections spring_open_document))
     = [[[JStr ''2024-03-10'', JStr ''Spring Open'', JStr ''Open'', JStr ''R'',
          JInt 1500, JInt 1520, JStr ''+20'']]]"
  unfolding spring_open_document_def
  by (subst display_sections_items, simp,
      simp add: current_rating_of_def section_row_example tables_append)

text \<open>
  C3. On the document of the example, \<open>display_sections\<close> prints one table with the one
  row \<open>2024-03-10\<close>, \<open>Spring Open\<close>, \<open>Open\<close>, \<open>R\<close>, 1500, 1520, \<open>+20\<close>, a
  current rating of 1520 and a section count of 1, and returns.
\<close>

theorem display_sections_spring_open:
  "tables (fst (display_sections spring_open_document))
     = [[[JStr ''2024-03-10'', JStr ''Spring Open'', JStr ''Open'', JStr ''R'',
          JInt 1500, JInt 1520, JStr ''+20'']]]
   \<and> current_ratings (fst (display_sections spring_open_document)) = [JInt 1520]
   \<and> total_sections (fst (display_sections spring_open_document)) = [1]
   \<and> snd (display_sections spring_open_document) = None"
  unfolding spring_open_document_def
  by (subst display_sections_items, simp,
      simp add: current_rating_of_def section_row_example
        current_ratings_append total_sections_append tables_append)+

subsection \<open>No data\<close>

text \<open>
  C4. When the document is absent or has no key \<open>items\<close>, the run prints
  \<open>No data available\<close> and nothing else; when \<open>items\<close> is the empty list it prints
  \<open>No tournament sections found\<close> and nothing else. In all three cases no table, no
  current rating and no section count is printed, and the function returns.
\<close>

theorem display_sections_no_data:
  "display_sections JNull = ([Print ''No data available''], None)
   \<and> (''items'' \<notin> set (map fst doc) \<longrightarrow>
        display_sections (JObj doc) = ([Print ''No data available''], None))
   \<and> (map_of doc' ''items'' = Some (JArr []) \<longrightarrow>
        display_sections (JObj doc') = ([Print ''No tournament sections found''], None))
   \<and> (data = JNull \<or> data = JObj doc \<and> ''items'' \<notin> set (map fst doc)
          \<or> data = JObj doc' \<and> map_of doc' ''items'' = Some (JArr []) \<longrightarrow>
        tables (fst (display_sections data)) = []
        \<and> current_ratings (fst (display_sections data)) = []
        \<and> total_sections (fst (display_sections data)) = [])"
proof -
  have a: "display_sections JNull = ([Print ''No data available''], None)"
    by (simp add: display_sections_def)
  have b: "display_sections (JObj doc) = ([Print ''No data available''], None)"
    if "''items'' \<notin> set (map fst doc)"
    using that by (simp add: display_sections_def)
  have c: "display_sections (JObj doc') = ([Print ''No tournament sections found''], None)"
    if "map_of doc' ''items'' = Some (JArr [])"
    using that map_of_Some_key[OF that] by (simp add: display_sections_def)
  from a b c show ?thesis by auto
qed

theorem display_sections_no_data_witness:
  "display_sections JNull = ([Print ''No data available''], None)
   \<and> display_sections (JObj [(''total'', JInt 0)]) = ([Print ''No data available''], None)
   \<and> display_sections (JObj [(''items'', JArr [])])
       = ([Print ''No tournament sections found''], None)
   \<and> tables (fst (display_sections (JObj [(''items'', JArr [])]))) = []
   \<and> current_ratings (fst (display_sections (JObj [(''items'', JArr [])]))) = []
   \<and> total_sections (fst (display_sections (JObj [(''items'', JArr [])]))) = []"
  using display_sections_no_data [of "[(''total'', JInt 0)]" "[(''items'', JArr [])]"
      "JObj [(''items'', JArr [])]"]
  by simp

subsection \<open>The current rating\<close>

lemma display_sections_summary:
  assumes "map_of doc ''items'' = Some (JArr (s # rest))"
    and "current_rating_of (JArr (s # rest)) = Inr cr"
  shows "current_ratings (fst (display_sections (JObj doc))) = [cr]"
    and "total_sections (fst (display_sections (JObj doc))) = [Suc (length rest)]"
  unfolding display_sections_items[OF assms(1)] using assms(2)
  by (simp_all add: current_ratings_append total_sections_append split: sum.split)

text \<open>
  C6, as the code has it. With a first section in the list, the current rating is the
  post-rating of its first rating record when that is a number other than zero; with
  the post-rating absent it is the pre-rating when that is a number other than zero,
  and \<open>N/A\<close> when both are absent; it is \<open>N/A\<close> when the list of rating records is
  empty or missing. With an empty list of sections no current rating is printed at all
  (the return of line 66 comes first).
\<close>

theorem current_rating_summary:
  "(map_of doc ''items'' = Some (JArr (JObj latest # rest))
      \<and> map_of latest ''ratingRecords'' = Some (JArr (JObj r # later))
      \<and> map_of r ''postRating'' = Some (JInt post) \<and> post \<noteq> 0 \<longrightarrow>
        current_ratings (fst (display_sections (JObj doc))) = [JInt post])
   \<and> (map_of doc ''items'' = Some (JArr (JObj latest # rest))
      \<and> map_of latest ''ratingRecords'' = Some (JArr (JObj r # later))
      \<and> map_of r ''postRating'' = None
      \<and> map_of r ''preRating'' = Some (JInt pre) \<and> pre \<noteq> 0 \<longrightarrow>
        current_ratings (fst (display_sections (JObj doc))) = [JInt pre])
   \<and> (map_of doc ''items'' = Some (JArr (JObj latest # rest))
      \<and> map_of latest ''ratingRecords'' = Some (JArr (JObj r # later))
      \<and> map_of r ''postRating'' = None \<and> map_of r ''preRating'' = None \<longrightarrow>
        current_ratings (fst (display_sections (JObj doc))) = [JStr ''N/A''])
   \<and> (map_of doc ''items'' = Some (JArr (JObj latest # rest))
      \<and> (map_of latest ''ratingRecords'' = Some (JArr [])
           \<or> map_of latest ''ratingRecords'' = None) \<longrightarrow>
        current_ratings (fst (display_sections (JObj doc))) = [JStr ''N/A''])
   \<and> (map_of doc ''items'' = Some (JArr []) \<longrightarrow>
        current_ratings (fst (display_sections (JObj doc))) = [])"
proof (intro conjI impI)
  assume h: "map_of doc ''items'' = Some (JArr (JObj latest # rest))
      \<and> map_of latest ''ratingRecords'' = Some (JArr (JObj r # later))
      \<and> map_of r ''postRating'' = Some (JInt post) \<and> post \<noteq> 0"
  then have "current_rating_of (JArr (JObj latest # rest)) = Inr (JInt post)"
    by (simp add: current_rating_of_def)
  with h show "current_ratings (fst (display_sections (JObj doc))) = [JInt post]"
    by (simp add: display_sections_summary)
next
  assume h: "map_of doc ''items'' = Some (JArr (JObj latest # rest))
      \<and> map_of latest ''ratingRecords'' = Some (JArr (JObj r # later))
      \<and> map_of r ''postRating'' = None
      \<and> map_of r ''preRating'' = Some (JInt pre) \<and> pre \<noteq> 0"
  then have "current_rating_of (JArr (JObj latest # rest)) = Inr (JInt pre)"
    by (simp add: current_rating_of_def py_or_def)
  with h show "current_ratings (fst (display_sections (JObj doc))) = [JInt pre]"
    by (simp add: display_sections_summary)
next
  assume h: "map_of doc ''items'' = Some (JArr (JObj latest # rest))
      \<and> map_of latest ''ratingRecords'' = Some (JArr (JObj r # later))
      \<and> map_of r ''postRating'' = None \<and> map_of r ''preRating'' = None"
  then have "current_rating_of (JArr (JObj latest # rest)) = Inr (JStr ''N/A'')"
    by (simp add: current_rating_of_def py_or_def)
  with h show "current_ratings (fst (display_sections (JObj doc))) = [JStr ''N/A'']"
    by (simp add: display_sections_summary)
next
  assume h: "map_of doc ''items'' = Some (JArr (JObj latest # rest))
      \<and> (map_of latest ''ratingRecords'' = Some (JArr [])
           \<or> map_of latest ''ratingRecords'' = None)"
  then have "current_rating_of (JArr (JObj latest # rest)) = Inr (JStr ''N/A'')"
    by (auto simp: current_rating_of_def)
  with h show "current_ratings (fst (display_sections (JObj doc))) = [JStr ''N/A'']"
    by (simp add: display_sections_summary)
next
  assume h: "map_of doc ''items'' = Some (JArr [])"
  with map_of_Some_key[OF h] show "current_ratings (fst (display_sections (JObj doc))) = []"
    by (simp add: display_sections_def)
qed

theorem current_rating_summary_witness:
  "current_ratings (fst (display_sections (JObj [(''items'', JArr [JObj
      [(''ratingRecords'', JArr [JObj [(''preRating'', JInt 1500), (''postRating'', JInt 1520)],
                                 JObj [(''preRating'', JInt 1400), (''postRating'', JInt 1450)]])]])])))
     = [JInt 1520]
   \<and> current_ratings (fst (display_sections (JObj [(''items'', JArr [JObj
      [(''ratingRecords'', JArr [JObj [(''preRating'', JInt 1500)]])]])])))
     = [JInt 1500]
   \<and> current_ratings (fst (display_sections (JObj [(''items'', JArr [JObj
      [(''ratingRecords'', JArr [JObj []])]])])))
     = [JStr ''N/A'']
   \<and> current_ratings (fst (display_sections (JObj [(''items'', JArr [JObj
      [(''ratingRecords'', JArr [])]])])))
     = [JStr ''N/A'']
   \<and> current_ratings (fst (display_sections (JObj [(''items'', JArr [])]))) = []"
  using
    current_rating_summary [of
      "[(''items'', JArr [JObj [(''ratingRecords'',
          JArr [JObj [(''preRating'', JInt 1500), (''postRating'', JInt 1520)],
                JObj [(''preRating'', JInt 1400), (''postRating'', JInt 1450)]])]])]"
      "[(''ratingRecords'',
          JArr [JObj [(''preRating'', JInt 1500), (''postRating'', JInt 1520)],
                JObj [(''preRating'', JInt 1400), (''postRating'', JInt 1450)]])]"
      "[]" "[(''preRating'', JInt 1500), (''postRating'', JInt 1520)]"
      "[JObj [(''preRating'', JInt 1400), (''postRating'', JInt 1450)]]" 1520 0]
    current_rating_summary [of
      "[(''items'', JArr [JObj [(''ratingRecords'', JArr [JObj [(''preRating'', JInt 1500)]])]])]"
      "[(''ratingRecords'', JArr [JObj [(''preRating'', JInt 1500)]])]"
      "[]" "[(''preRating'', JInt 1500)]" "[]" 0 1500]
    current_rating_summary [of
      "[(''items'', JArr [JObj [(''ratingRecords'', JArr [JObj []])]])]"
      "[(''ratingRecords'', JArr [JObj []])]" "[]" "[]" "[]" 0 0]
    current_rating_summary [of
      "[(''items'', JArr [JObj [(''ratingRecords'', JArr [])]])]"
      "[(''ratingRecords'', JArr [])]" "[]" "[]" "[]" 0 0]
    current_rating_summary [of "[(''items'', JArr [])]" "[]" "[]" "[]" "[]" 0 0]
  by simp

text \<open>
  C6 as the specification words it, \<open>N/A\<close> for an empty list of sections, fails: the
  run prints no current rating there.
\<close>

theorem current_rating_empty_sections_counterexample:
  "current_ratings (fst (display_sections (JObj [(''items'', JArr [])]))) \<noteq> [JStr ''N/A'']"
  by (simp add: display_sections_def)

text \<open>
  A rating of zero is a false value, so the chain of \<^verbatim>\<open>or\<close> of line 78 passes
  over it, while the row (lines 125 and 126, which test \<^verbatim>\<open>is not None\<close>) shows it.
\<close>

lemma current_rating_zero_post_rating:
  "current_rating_of (JArr [JObj [(''ratingRecords'',
       JArr [JObj [(''preRating'', JInt 1500), (''postRating'', JInt 0)]])]])
     = Inr (JInt 1500)
   \<and> section_row (JObj [(''ratingRecords'',
       JArr [JObj [(''preRating'', JInt 1500), (''postRating'', JInt 0)]])])
     = Inr [JStr ''N/A'', JStr ''N/A'', JStr ''N/A'', JStr ''R'', JInt 1500, JInt 0,
            JStr ''-1500'']"
  by (simp add: current_rating_of_def py_or_def section_row_def first_ratings_def
      calculate_rating_change_def py_sub_def format_date_def str_int_def str_nat.simps
      digit_char_def)

subsection \<open>The cells of a row\<close>

lemma section_row_cells:
  assumes "section_row (JObj sec) = Inr row"
  obtains rb ra change date_cell name_cell section_cell where
    "first_ratings (case map_of sec ''ratingRecords'' of None \<Rightarrow> JArr [] | Some v \<Rightarrow> v)
       = Inr (rb, ra)"
    and "calculate_rating_change rb ra = Inr change"
    and "bind_exc (py_get (case map_of sec ''event'' of None \<Rightarrow> JObj [] | Some v \<Rightarrow> v)
                     ''name'' (JStr ''N/A'')) (\<lambda>n. py_slice n 30) = Inr name_cell"
    and "py_slice (case map_of sec ''sectionName'' of None \<Rightarrow> JStr ''N/A'' | Some v \<Rightarrow> v) 20
       = Inr section_cell"
    and "row = [date_cell, name_cell, section_cell,
                case map_of sec ''ratingSystem'' of None \<Rightarrow> JStr ''R'' | Some v \<Rightarrow> v,
                if rb \<noteq> JNull then rb else JStr ''N/A'',
                if ra \<noteq> JNull then ra else JStr ''Pending'',
                JStr change]"
  using assms
  by (auto simp: section_row_def bind_exc_eq_Inr split: prod.splits)

lemma first_ratings_empty: "first_ratings (JArr []) = Inr (JNull, JNull)"
  by (simp add: first_ratings_def)

lemma first_ratings_first:
  "first_ratings (JArr (JObj r # later))
     = Inr (case map_of r ''preRating'' of None \<Rightarrow> JNull | Some v \<Rightarrow> v,
            case map_of r ''postRating'' of None \<Rightarrow> JNull | Some v \<Rightarrow> v)"
  by (simp add: first_ratings_def)

text \<open>
  C7. In every row of the printed table, the event name of the section stands cut to its
  first 30 characters and the section name cut to its first 20: a longer name is shown
  with exactly 30 (20) characters, a name of at most that length is shown unchanged.
\<close>

theorem displayed_names_truncated:
  assumes "map_of doc ''items'' = Some (JArr secs)"
    and "tables (fst (display_sections (JObj doc))) = [rows]"
    and "i < length secs" and "secs ! i = JObj sec"
    and "map_of sec ''event'' = Some (JObj ev)"
    and "map_of ev ''name'' = Some (JStr event_name)"
    and "map_of sec ''sectionName'' = Some (JStr section_name)"
  shows "rows ! i ! 1 = JStr (take 30 event_name)
       \<and> rows ! i ! 2 = JStr (take 20 section_name)
       \<and> (30 < length event_name \<longrightarrow> length (take 30 event_name) = 30)
       \<and> (length event_name \<le> 30 \<longrightarrow> take 30 event_name = event_name)
       \<and> (20 < length section_name \<longrightarrow> length (take 20 section_name) = 20)
       \<and> (length section_name \<le> 20 \<longrightarrow> take 20 section_name = section_name)"
proof -
  from displayed_row[OF assms(1,2,3)] assms(4)
  have "section_row (JObj sec) = Inr (rows ! i)" by simp
  then show ?thesis
    using assms(5,6,7) by (elim section_row_cells) auto
qed

text \<open>
  C8. In every row of the printed table, the type cell is \<open>R\<close> when the section has no
  \<open>ratingSystem\<close>; the Before cell is \<open>N/A\<close> when the pre-rating is absent and the
  After cell is \<open>Pending\<close> when the post-rating is absent, be it that the section has no
  rating records or that its first record lacks the field; with no rating records the
  change is \<open>Pending\<close> too. The two defaults differ.
\<close>

theorem displayed_defaults:
  assumes "map_of doc ''items'' = Some (JArr secs)"
    and "tables (fst (display_sections (JObj doc))) = [rows]"
    and "i < length secs" and "secs ! i = JObj sec"
  shows "(map_of sec ''ratingSystem'' = None \<longrightarrow> rows ! i ! 3 = JStr ''R'')
       \<and> (map_of sec ''ratingRecords'' = None \<or> map_of sec ''ratingRecords'' = Some (JArr []) \<longrightarrow>
            rows ! i ! 4 = JStr ''N/A'' \<and> rows ! i ! 5 = JStr ''Pending''
            \<and> rows ! i ! 6 = JStr ''Pending'')
       \<and> (map_of sec ''ratingRecords'' = Some (JArr (JObj r # later))
            \<and> map_of r ''preRating'' = None \<longrightarrow> rows ! i ! 4 = JStr ''N/A'')
       \<and> (map_of sec ''ratingRecords'' = Some (JArr (JObj r # later))
            \<and> map_of r ''postRating'' = None \<longrightarrow> rows ! i ! 5 = JStr ''Pending'')
       \<and> JStr ''N/A'' \<noteq> JStr ''Pending''"
proof -
  from displayed_row[OF assms(1,2,3)] assms(4)
  have "section_row (JObj sec) = Inr (rows ! i)" by simp
  then show ?thesis
    by (elim section_row_cells)
       (auto simp: first_ratings_empty first_ratings_first calculate_rating_change_def)
qed

subsection \<open>A document with long names and missing fields\<close>

lemma section_row_open_section:
  "section_row (JObj open_section)
     = Inr [JStr ''N/A'', JStr ''2024 National Open Championshi'', JStr ''Under 1800 Reserve S'',
            JStr ''R'', JStr ''N/A'', JStr ''Pending'', JStr ''Pending'']"
  by (simp add: open_section_def section_row_def first_ratings_def
      calculate_rating_change_def format_date_def)

lemma section_row_quick_section:
  "section_row (JObj (quick_section later))
     = Inr [JStr ''N/A'', JStr ''N/A'', JStr ''N/A'', JStr ''Q'', JStr ''N/A'', JStr ''Pending'',
            JStr ''Pending'']"
  by (simp add: quick_section_def section_row_def first_ratings_def
      calculate_rating_change_def format_date_def)

lemma tables_two_sections_document:
  "tables (fst (display_sections (JObj (two_sections_document later))))
     = [[[JStr ''N/A'', JStr ''2024 National Open Championshi'', JStr ''Under 1800 Reserve S'',
          JStr ''R'', JStr ''N/A'', JStr ''Pending'', JStr ''Pending''],
         [JStr ''N/A'', JStr ''N/A'', JStr ''N/A'', JStr ''Q'', JStr ''N/A'', JStr ''Pending'',
          JStr ''Pending'']]]"
  by (subst display_sections_items [of _ "JObj open_section" "[JObj (quick_section later)]"])
     (simp_all add: two_sections_document_def current_rating_of_def open_section_def
        section_row_open_section [unfolded open_section_def] section_row_quick_section
        tables_append)

theorem displayed_names_truncated_witness:
  "tables (fst (display_sections (JObj (two_sections_document []))))
     = [[[JStr ''N/A'', JStr ''2024 National Open Championshi'', JStr ''Under 1800 Reserve S'',
          JStr ''R'', JStr ''N/A'', JStr ''Pending'', JStr ''Pending''],
         [JStr ''N/A'', JStr ''N/A'', JStr ''N/A'', JStr ''Q'', JStr ''N/A'', JStr ''Pending'',
          JStr ''Pending'']]]
   \<and> 30 < length ''2024 National Open Championship Las Vegas''
   \<and> length (take 30 ''2024 National Open Championship Las Vegas'') = 30
   \<and> 20 < length ''Under 1800 Reserve Section''
   \<and> length (take 20 ''Under 1800 Reserve Section'') = 20
   \<and> tables (fst (display_sections spring_open_document))
     = [[[JStr ''2024-03-10'', JStr ''Spring Open'', JStr ''Open'', JStr ''R'',
          JInt 1500, JInt 1520, JStr ''+20'']]]
   \<and> length ''Spring Open'' \<le> 30 \<and> take 30 ''Spring Open'' = ''Spring Open''
   \<and> length ''Open'' \<le> 20 \<and> take 20 ''Open'' = ''Open''"
  using displayed_names_truncated [of "two_sections_document []"
      "[JObj open_section, JObj (quick_section [])]"
      "[[JStr ''N/A'', JStr ''2024 National Open Championshi'', JStr ''Under 1800 Reserve S'',
          JStr ''R'', JStr ''N/A'', JStr ''Pending'', JStr ''Pending''],
         [JStr ''N/A'', JStr ''N/A'', JStr ''N/A'', JStr ''Q'', JStr ''N/A'', JStr ''Pending'',
          JStr ''Pending'']]"
      0 open_section "[(''name'', JStr ''2024 National Open Championship Las Vegas'')]"
      "''2024 National Open Championship Las Vegas''" "''Under 1800 Reserve Section''"]
    tables_two_sections_document [of "[]"]
    displayed_names_truncated [of
      "[(''items'', JArr [JObj
         [(''ratingRecords'',
             JArr [JObj [(''preRating'', JInt 1500), (''postRating'', JInt 1520)]]),
          (''ratingSystem'', JStr ''R''),
          (''sectionName'', JStr ''Open''),
          (''event'', JObj [(''name'', JStr ''Spring Open''),
                           (''endDate'', JStr ''2024-03-10T00:00:00Z'')])]])]"
      "[JObj
         [(''ratingRecords'',
             JArr [JObj [(''preRating'', JInt 1500), (''postRating'', JInt 1520)]]),
          (''ratingSystem'', JStr ''R''),
          (''sectionName'', JStr ''Open''),
          (''event'', JObj [(''name'', JStr ''Spring Open''),
                           (''endDate'', JStr ''2024-03-10T00:00:00Z'')])]]"
      "[[JStr ''2024-03-10'', JStr ''Spring Open'', JStr ''Open'', JStr ''R'',
         JInt 1500, JInt 1520, JStr ''+20'']]"
      0
      "[(''ratingRecords'',
           JArr [JObj [(''preRating'', JInt 1500), (''postRating'', JInt 1520)]]),
        (''ratingSystem'', JStr ''R''),
        (''sectionName'', JStr ''Open''),
        (''event'', JObj [(''name'', JStr ''Spring Open''),
                         (''endDate'', JStr ''2024-03-10T00:00:00Z'')])]"
      "[(''name'', JStr ''Spring Open''), (''endDate'', JStr ''2024-03-10T00:00:00Z'')]"
      "''Spring Open''" "''Open''"]
    tables_spring_open_document
  by (simp add: two_sections_document_def open_section_def spring_open_document_def)

theorem displayed_defaults_witness:
  "tables (fst (display_sections (JObj (two_sections_document []))))
     = [[[JStr ''N/A'', JStr ''2024 National Open Championshi'', JStr ''Under 1800 Reserve S'',
          JStr ''R'', JStr ''N/A'', JStr ''Pending'', JStr ''Pending''],
         [JStr ''N/A'', JStr ''N/A'', JStr ''N/A'', JStr ''Q'', JStr ''N/A'', JStr ''Pending'',
          JStr ''Pending'']]]
   \<and> map_of open_section ''ratingSystem'' = None
   \<and> map_of open_section ''ratingRecords'' = None
   \<and> map_of (quick_section []) ''ratingRecords'' = Some (JArr [JObj []])
   \<and> JStr ''N/A'' \<noteq> JStr ''Pending''"
  using displayed_defaults [of "two_sections_document []"
      "[JObj open_section, JObj (quick_section [])]"
      "[[JStr ''N/A'', JStr ''2024 National Open Championshi'', JStr ''Under 1800 Reserve S'',
          JStr ''R'', JStr ''N/A'', JStr ''Pending'', JStr ''Pending''],
         [JStr ''N/A'', JStr ''N/A'', JStr ''N/A'', JStr ''Q'', JStr ''N/A'', JStr ''Pending'',
          JStr ''Pending'']]"
      0 open_section "[]" "[]"]
    displayed_defaults [of "two_sections_document []"
      "[JObj open_section, JObj (quick_section [])]"
      "[[JStr ''N/A'', JStr ''2024 National Open Championshi'', JStr ''Under 1800 Reserve S'',
          JStr ''R'', JStr ''N/A'', JStr ''Pending'', JStr ''Pending''],
         [JStr ''N/A'', JStr ''N/A'', JStr ''N/A'', JStr ''Q'', JStr ''N/A'', JStr ''Pending'',
          JStr ''Pending'']]"
      1 "quick_section []" "[]" "[]"]
    tables_two_sections_document [of "[]"]
  by (simp add: two_sections_document_def open_section_def quick_section_def)

subsection \<open>Later rating records\<close>

lemma table_rows_cong:
  "section_row s' = section_row s \<Longrightarrow>
     table_rows (before @ s' # rest) = table_rows (before @ s # rest)"
  by (induction before) simp_all

lemma current_rating_of_cong:
  "current_rating_of (JArr [s']) = current_rating_of (JArr [s]) \<Longrightarrow>
     current_rating_of (JArr (before @ s' # rest)) = current_rating_of (JArr (before @ s # rest))"
  by (cases before) (simp_all add: current_rating_of_def)

text \<open>
  C9. Two sections that agree on every field but \<open>ratingRecords\<close>, and whose lists of
  rating records start with the same record, give the same rating pair, the same row
  and the same current rating; two documents that differ in such a section only print
  the same. So the records after the first are ignored.
\<close>

theorem later_rating_records_ignored:
  assumes "map_of sec ''ratingRecords'' = Some (JArr (r # later))"
    and "map_of sec' ''ratingRecords'' = Some (JArr (r # later'))"
    and "\<forall>k. k \<noteq> ''ratingRecords'' \<longrightarrow> map_of sec' k = map_of sec k"
    and "map_of doc ''items'' = Some (JArr (before @ JObj sec # rest))"
    and "map_of doc' ''items'' = Some (JArr (before @ JObj sec' # rest))"
  shows "first_ratings (JArr (r # later')) = first_ratings (JArr (r # later))
       \<and> section_row (JObj sec') = section_row (JObj sec)
       \<and> current_rating_of (JArr (JObj sec' # rest)) = current_rating_of (JArr (JObj sec # rest))
       \<and> display_sections (JObj doc') = display_sections (JObj doc)"
proof -
  have f: "first_ratings (JArr (r # later')) = first_ratings (JArr (r # later))"
    by (simp add: first_ratings_def)
  from assms(3) have same:
    "map_of sec' ''ratingSystem'' = map_of sec ''ratingSystem''"
    "map_of sec' ''event'' = map_of sec ''event''"
    "map_of sec' ''sectionName'' = map_of sec ''sectionName''"
    by simp_all
  from assms(1,2) same f have row: "section_row (JObj sec') = section_row (JObj sec)"
    by (simp add: section_row_def)
  from assms(1,2) have cur1:
    "current_rating_of (JArr [JObj sec']) = current_rating_of (JArr [JObj sec])"
    by (simp add: current_rating_of_def cong: if_cong)
  then have cur: "current_rating_of (JArr (JObj sec' # rest))
      = current_rating_of (JArr (JObj sec # rest))"
    using current_rating_of_cong [of "JObj sec'" "JObj sec" "[]" rest] by simp
  obtain x xs where xs: "before @ JObj sec # rest = x # xs" by (cases before) auto
  obtain y ys where ys: "before @ JObj sec' # rest = y # ys" by (cases before) auto
  from xs ys have len: "length xs = length ys"
    by (metis length_Cons length_append nat.inject)
  have tr: "table_rows (y # ys) = table_rows (x # xs)"
    using table_rows_cong [OF row, of before rest] unfolding xs ys .
  have cr: "current_rating_of (JArr (y # ys)) = current_rating_of (JArr (x # xs))"
    using current_rating_of_cong [OF cur1, of before rest] unfolding xs ys .
  from assms(4) have i1: "map_of doc ''items'' = Some (JArr (x # xs))"
    unfolding xs .
  from assms(5) have i2: "map_of doc' ''items'' = Some (JArr (y # ys))"
    unfolding ys .
  have "display_sections (JObj doc') = display_sections (JObj doc)"
    by (simp only: display_sections_items [OF i1] display_sections_items [OF i2] tr cr len)
  with f row cur show ?thesis by simp
qed

theorem later_rating_records_ignored_witness:
  "display_sections (JObj (two_sections_document
       [JObj [(''preRating'', JInt 1400), (''postRating'', JInt 1450)]]))
     = display_sections (JObj (two_sections_document []))
   \<and> section_row (JObj (quick_section
       [JObj [(''preRating'', JInt 1400), (''postRating'', JInt 1450)]]))
     = section_row (JObj (quick_section []))
   \<and> current_rating_of (JArr [JObj (quick_section
       [JObj [(''preRating'', JInt 1400), (''postRating'', JInt 1450)]])])
     = current_rating_of (JArr [JObj (quick_section [])])"
  using later_rating_records_ignored [where sec = "quick_section []" and r = "JObj []"
      and later = "[]"
      and sec' = "quick_section [JObj [(''preRating'', JInt 1400), (''postRating'', JInt 1450)]]"
      and later' = "[JObj [(''preRating'', JInt 1400), (''postRating'', JInt 1450)]]"
      and doc = "two_sections_document []" and before = "[JObj open_section]" and rest = "[]"
      and doc' = "two_sections_document
        [JObj [(''preRating'', JInt 1400), (''postRating'', JInt 1450)]]"]
  by (simp add: quick_section_def two_sections_document_def)

section \<open>Properties of fetch\_member\_sections\<close>

text \<open>
  C5, as the code has it. An exception of the \<^verbatim>\<open>RequestException\<close> hierarchy from
  \<^verbatim>\<open>requests.get\<close>, a status from 400 to 599, or such an exception from decoding
  the body is printed and answered with \<^verbatim>\<open>None\<close>; a response with any other
  status whose body decodes is answered with the decoded body and nothing is printed.
  When every exception that the request and the decoding raise belongs to that
  hierarchy, the function returns and raises nothing.
\<close>

theorem fetch_member_sections_outcomes:
  "(requests_get (sections_url member_id) [(''Offset'', offset), (''Size'', size')] = Inl e
      \<and> is_RequestException e \<longrightarrow>
        fetch_member_sections requests_get member_id offset size'
          = ([PrintFetchError e], Inr JNull))
   \<and> (requests_get (sections_url member_id) [(''Offset'', offset), (''Size'', size')] = Inr resp
      \<and> 400 \<le> status_code resp \<and> status_code resp < 600 \<longrightarrow>
        fetch_member_sections requests_get member_id offset size'
          = ([PrintFetchError (HTTPError (status_code resp))], Inr JNull))
   \<and> (requests_get (sections_url member_id) [(''Offset'', offset), (''Size'', size')] = Inr resp
      \<and> (status_code resp < 400 \<or> 600 \<le> status_code resp)
      \<and> json_body resp = Inl e \<and> is_RequestException e \<longrightarrow>
        fetch_member_sections requests_get member_id offset size'
          = ([PrintFetchError e], Inr JNull))
   \<and> (requests_get (sections_url member_id) [(''Offset'', offset), (''Size'', size')] = Inr resp
      \<and> (status_code resp < 400 \<or> 600 \<le> status_code resp)
      \<and> json_body resp = Inr document \<longrightarrow>
        fetch_member_sections requests_get member_id offset size' = ([], Inr document))
   \<and> ((\<forall>x. requests_get (sections_url member_id) [(''Offset'', offset), (''Size'', size')] = Inl x
            \<longrightarrow> is_RequestException x)
      \<and> (\<forall>r x. requests_get (sections_url member_id) [(''Offset'', offset), (''Size'', size')]
              = Inr r \<and> json_body r = Inl x \<longrightarrow> is_RequestException x) \<longrightarrow>
        (\<exists>out result. fetch_member_sections requests_get member_id offset size'
           = (out, Inr result)))"
proof (intro conjI impI)
  assume "(\<forall>x. requests_get (sections_url member_id) [(''Offset'', offset), (''Size'', size')] = Inl x
            \<longrightarrow> is_RequestException x)
      \<and> (\<forall>r x. requests_get (sections_url member_id) [(''Offset'', offset), (''Size'', size')]
              = Inr r \<and> json_body r = Inl x \<longrightarrow> is_RequestException x)"
  then show "\<exists>out result. fetch_member_sections requests_get member_id offset size'
           = (out, Inr result)"
    by (auto simp: fetch_member_sections_def fetch_handler_def raise_for_status_def
        split: sum.splits)
qed (auto simp: fetch_member_sections_def fetch_handler_def raise_for_status_def)

theorem fetch_member_sections_outcomes_witness:
  "fetch_member_sections (\<lambda>url params. Inl (RequestFailure ''Connection refused''))
       ''17323973'' 0 50
     = ([PrintFetchError (RequestFailure ''Connection refused'')], Inr JNull)
   \<and> fetch_member_sections
       (\<lambda>url params. Inr \<lparr>status_code = 404, json_body = Inr (JObj [])\<rparr>) ''17323973'' 0 50
     = ([PrintFetchError (HTTPError 404)], Inr JNull)
   \<and> fetch_member_sections
       (\<lambda>url params. Inr \<lparr>status_code = 200, json_body = Inl (RequestFailure ''Expecting value'')\<rparr>)
       ''17323973'' 0 50
     = ([PrintFetchError (RequestFailure ''Expecting value'')], Inr JNull)
   \<and> fetch_member_sections
       (\<lambda>url params. Inr \<lparr>status_code = 200, json_body = Inr spring_open_document\<rparr>)
       ''17323973'' 0 50
     = ([], Inr spring_open_document)
   \<and> (\<exists>out result. fetch_member_sections
         (\<lambda>url params. Inr \<lparr>status_code = 200, json_body = Inr spring_open_document\<rparr>)
         ''17323973'' 0 50 = (out, Inr result))"
  using
    fetch_member_sections_outcomes [of
      "\<lambda>url params. Inl (RequestFailure ''Connection refused'')" "''17323973''" 0 50
      "RequestFailure ''Connection refused''" "\<lparr>status_code = 200, json_body = Inr JNull\<rparr>" JNull]
    fetch_member_sections_outcomes [of
      "\<lambda>url params. Inr \<lparr>status_code = 404, json_body = Inr (JObj [])\<rparr>" "''17323973''" 0 50
      "HTTPError 404" "\<lparr>status_code = 404, json_body = Inr (JObj [])\<rparr>" JNull]
    fetch_member_sections_outcomes [of
      "\<lambda>url params. Inr \<lparr>status_code = 200, json_body = Inl (RequestFailure ''Expecting value'')\<rparr>"
      "''17323973''" 0 50 "RequestFailure ''Expecting value''"
      "\<lparr>status_code = 200, json_body = Inl (RequestFailure ''Expecting value'')\<rparr>" JNull]
    fetch_member_sections_outcomes [of
      "\<lambda>url params. Inr \<lparr>status_code = 200, json_body = Inr spring_open_document\<rparr>"
      "''17323973''" 0 50 "HTTPError 404"
      "\<lparr>status_code = 200, json_body = Inr spring_open_document\<rparr>" spring_open_document]
  by simp

text \<open>
  C5 as the specification words it fails on a response with status 300, which is not
  2xx and yet is answered with its decoded body, and on an exception from outside the
  hierarchy, which the \<^verbatim>\<open>except\<close> clause lets through.
\<close>

theorem fetch_member_sections_status_counterexample:
  "\<not> (200 \<le> (300::nat) \<and> (300::nat) < 300)
   \<and> fetch_member_sections
       (\<lambda>url params. Inr \<lparr>status_code = 300, json_body = Inr spring_open_document\<rparr>)
       ''17323973'' 0 50
     \<noteq> ([PrintFetchError (HTTPError 300)], Inr JNull)
   \<and> snd (fetch_member_sections
       (\<lambda>url params. Inr \<lparr>status_code = 300, json_body = Inr spring_open_document\<rparr>)
       ''17323973'' 0 50) = Inr spring_open_document
   \<and> spring_open_document \<noteq> JNull
   \<and> snd (fetch_member_sections
       (\<lambda>url params. Inl (ForeignException ''KeyboardInterrupt'')) ''17323973'' 0 50)
     = Inl (ForeignException ''KeyboardInterrupt'')"
  by (simp add: fetch_member_sections_def fetch_handler_def raise_for_status_def
      spring_open_document_def)

end
